theory Spec2Isabelle
  imports Main "HOL-Library.AList" "HOL-Library.Char_ord" "HOL-Library.List_Lexorder"
    "HOL-Library.Multiset"
begin

section \<open>The medication reminder: data model\<close>

text \<open>
  The application of \<^verbatim>\<open>script.js\<close> is one object of class \<^verbatim>\<open>MedicationApp\<close>. Its
  fields, the browser's \<^verbatim>\<open>localStorage\<close>, the pending \<^verbatim>\<open>setTimeout\<close> callbacks and the
  notifications shown so far are the state; every method is a function from state to
  state. What a method reads from the wall clock is a parameter of type \<open>clock\<close>: one
  reading for each event handler, which runs to its end without interruption.
  Writes to the page (the rendered schedule, toasts, whether a modal is visible) are
  presentation and are not part of the state; the one thing a modal holds that matters
  afterwards, the callback behind its "yes" button, is.
\<close>

record medication =
  med_id :: string
  name :: string
  dosage :: string
  timesPerDay :: int
  med_times :: "string list"
  createdAt :: string
  isActive :: bool

record historyEntry =
  entry_id :: string
  medicationId :: string
  medicationName :: string
  action :: string
  scheduledTime :: string
  actualTime :: string
  date :: string

record appSettings =
  soundEnabled :: bool
  vibrationEnabled :: bool
  highContrast :: bool
  textSize :: string

text \<open>
  The host's time zone around the moment of interest: the offset of local time from UTC
  in milliseconds, with at most one change of offset, at the instant \<open>transition\<close>. A
  zone without a change has both offsets equal; a clock that is set forward (the start
  of daylight saving) has \<open>offsetBefore < offsetAfter\<close>, one that is set back the reverse.
\<close>

record timeZone =
  transition :: int
  offsetBefore :: int
  offsetAfter :: int

text \<open>
  One reading of the wall clock. \<open>timestamp\<close> is \<^verbatim>\<open>Date.now().toString()\<close>, \<open>isoString\<close> is
  \<^verbatim>\<open>new Date().toISOString()\<close>, \<open>dateString\<close> is \<^verbatim>\<open>new Date().toDateString()\<close> (the local
  calendar day), \<open>epochMillis\<close> is the time value of \<^verbatim>\<open>new Date()\<close> (milliseconds since
  the epoch, UTC), and \<open>zone\<close> is the zone in which the host's \<^verbatim>\<open>Date\<close> reads and sets
  local time.
\<close>

record clock =
  timestamp :: string
  isoString :: string
  dateString :: string
  epochMillis :: int
  zone :: timeZone

text \<open>What \<^verbatim>\<open>JSON.stringify\<close> wrote under a key of \<^verbatim>\<open>localStorage\<close>.\<close>

datatype blob =
  MedicationsBlob "medication list"
  | HistoryBlob "historyEntry list"
  | SettingsBlob appSettings

text \<open>
  A pending \<^verbatim>\<open>setTimeout\<close> callback of \<^verbatim>\<open>scheduleNotificationForTime\<close>: the closure keeps
  the medication object and the time it was armed with; \<open>due\<close> is the instant at which it
  runs, a time value like \<open>epochMillis\<close>. The handle that \<^verbatim>\<open>setTimeout\<close> returns is dropped by the source, so the model
  has none either.
\<close>

record timer =
  due :: int
  timerMedication :: medication
  timerTime :: string

record notification =
  title :: string
  body :: string
  tag :: string
  withSound :: bool
  withVibration :: bool

text \<open>The callbacks that \<^verbatim>\<open>showConfirmDialog\<close> is given, one constructor per call site.\<close>

datatype callback =
  ConfirmDelete string
  | ConfirmUndo string string
  | ConfirmClearAll

record app =
  medications :: "medication list"
  history :: "historyEntry list"
  settings :: appSettings
  currentScreen :: string
  notificationPermission :: bool
  storage :: "string \<rightharpoonup> blob"
  storageFull :: bool
  vibrateSupported :: bool
  timers :: "timer list"
  notifications :: "notification list"
  dialog :: "callback option"

section \<open>Persistence\<close>

text \<open>
  \<^verbatim>\<open>saveData\<close> writes the three collections; an exception of \<^verbatim>\<open>setItem\<close> (the flag
  \<open>storageFull\<close>) is caught and leaves the store as it was.
\<close>

definition saveData :: "app \<Rightarrow> app" where
  "saveData s =
     (if storageFull s then s
      else s\<lparr>storage := (storage s)
              (''seniorMed_medications'' \<mapsto> MedicationsBlob (medications s),
               ''seniorMed_history'' \<mapsto> HistoryBlob (history s),
               ''seniorMed_settings'' \<mapsto> SettingsBlob (settings s))\<rparr>)"

definition showConfirmDialog :: "callback \<Rightarrow> app \<Rightarrow> app" where
  "showConfirmDialog onConfirm s = s\<lparr>dialog := Some onConfirm\<rparr>"

section \<open>Adherence tracker\<close>

definition isMedicationTakenToday :: "clock \<Rightarrow> string \<Rightarrow> string \<Rightarrow> app \<Rightarrow> bool" where
  "isMedicationTakenToday clk medId time s =
     (let today = dateString clk in
      list_ex (\<lambda>entry. medicationId entry = medId \<and>
                        scheduledTime entry = time \<and>
                        date entry = today \<and>
                        action entry = ''taken'') (history s))"

definition recordMedicationAction ::
  "clock \<Rightarrow> string \<Rightarrow> string \<Rightarrow> string \<Rightarrow> app \<Rightarrow> app" where
  "recordMedicationAction clk medId act time s =
     (case find (\<lambda>med. med_id med = medId) (medications s) of
        None \<Rightarrow> s
      | Some med \<Rightarrow>
          let historyEntry =
                \<lparr>entry_id = timestamp clk,
                 medicationId = medId,
                 medicationName = name med,
                 action = act,
                 scheduledTime = time,
                 actualTime = isoString clk,
                 date = dateString clk\<rparr>
          in saveData (s\<lparr>history := history s @ [historyEntry]\<rparr>))"

definition markMedicationTaken :: "clock \<Rightarrow> string \<Rightarrow> string \<Rightarrow> app \<Rightarrow> app" where
  "markMedicationTaken clk medId time s = recordMedicationAction clk medId ''taken'' time s"

definition markMedicationMissed :: "clock \<Rightarrow> string \<Rightarrow> string \<Rightarrow> app \<Rightarrow> app" where
  "markMedicationMissed clk medId time s = recordMedicationAction clk medId ''missed'' time s"

definition markMedicationSkipped :: "clock \<Rightarrow> string \<Rightarrow> string \<Rightarrow> app \<Rightarrow> app" where
  "markMedicationSkipped clk medId time s = recordMedicationAction clk medId ''skipped'' time s"

definition removeMedicationRecord :: "clock \<Rightarrow> string \<Rightarrow> string \<Rightarrow> app \<Rightarrow> app" where
  "removeMedicationRecord clk medId time s =
     (let today = dateString clk in
      saveData (s\<lparr>history :=
        filter (\<lambda>entry. \<not> (medicationId entry = medId \<and>
                              scheduledTime entry = time \<and>
                              date entry = today)) (history s)\<rparr>))"

definition toggleMedicationStatus :: "clock \<Rightarrow> string \<Rightarrow> string \<Rightarrow> app \<Rightarrow> app" where
  "toggleMedicationStatus clk medId time s =
     (if isMedicationTakenToday clk medId time s
      then showConfirmDialog (ConfirmUndo medId time) s
      else markMedicationTaken clk medId time s)"

section \<open>Schedule index\<close>

text \<open>
  \<^verbatim>\<open>timeGroups\<close> is a plain object used as a dictionary from time strings to arrays. It
  is an association list in insertion order, which is the order \<^verbatim>\<open>Object.entries\<close>
  lists string keys such as \<^verbatim>\<open>"08:00"\<close> in. \<open>groupAt\<close> is \<^verbatim>\<open>timeGroups[time] || []\<close>.
  This is the dictionary for keys that are times of day, \<open>wellFormedTime\<close> below. A key
  that is all digits (which \<^verbatim>\<open>Object.entries\<close> lists first) or that names a member of
  \<^verbatim>\<open>Object.prototype\<close> (on which \<^verbatim>\<open>push\<close> raises a \<^verbatim>\<open>TypeError\<close>) is not one of them:
  what is proved of the mapping is proved for stores whose times are all well formed
  (\<open>timesWellFormed\<close>), or for the medications the mapping has delivered.
\<close>

type_synonym timeGroups = "(string \<times> medication list) list"

definition groupAt :: "timeGroups \<Rightarrow> string \<Rightarrow> medication list" where
  "groupAt timeGroups time = (case map_of timeGroups time of None \<Rightarrow> [] | Some g \<Rightarrow> g)"

definition pushMedication :: "medication \<Rightarrow> string \<Rightarrow> timeGroups \<Rightarrow> timeGroups" where
  "pushMedication med time timeGroups =
     (let timeGroups' =
            (case map_of timeGroups time of
               None \<Rightarrow> AList.update time [] timeGroups
             | Some g \<Rightarrow> timeGroups)
      in AList.update time (groupAt timeGroups' time @ [med]) timeGroups')"

definition groupMedicationsByTime :: "app \<Rightarrow> timeGroups" where
  "groupMedicationsByTime s =
     fold (\<lambda>med timeGroups. fold (pushMedication med) (med_times med) timeGroups)
          (medications s) []"

definition resolveAllForTime :: "clock \<Rightarrow> string \<Rightarrow> app \<Rightarrow> app" where
  "resolveAllForTime clk time s =
     (let timeGroups = groupMedicationsByTime s;
          meds = groupAt timeGroups time
      in fold (\<lambda>med s'. if \<not> isMedicationTakenToday clk (med_id med) time s'
                         then markMedicationTaken clk (med_id med) time s'
                         else s') meds s)"

text \<open>
  What \<^verbatim>\<open>renderTodaysSchedule\<close> puts on the page: one of the two empty states, or the time
  blocks, which are the entries of \<^verbatim>\<open>timeGroups\<close> sorted by key. On keys of the form
  \<^verbatim>\<open>HH:MM\<close> \<^verbatim>\<open>localeCompare\<close> is the lexicographic order on the characters, and
  \<^verbatim>\<open>Array.prototype.sort\<close> is stable, as \<open>sort_key\<close> is.
\<close>

record timeBlock =
  blockTime :: string
  resolveAllButton :: bool
  blockItems :: "(medication \<times> bool) list"

datatype scheduleView =
  NoMedicationsAdded
  | NoMedicationsToday
  | TimeBlocks "timeBlock list"

definition renderTodaysSchedule :: "clock \<Rightarrow> app \<Rightarrow> scheduleView" where
  "renderTodaysSchedule clk s =
     (if length (medications s) = 0 then NoMedicationsAdded
      else let timeGroups = groupMedicationsByTime s in
        if length timeGroups = 0 then NoMedicationsToday
        else TimeBlocks
          (map (\<lambda>(time, meds).
                  \<lparr>blockTime = time,
                   resolveAllButton = (length meds > 1),
                   blockItems =
                     map (\<lambda>med. (med, isMedicationTakenToday clk (med_id med) time s)) meds\<rparr>)
               (sort_key fst timeGroups)))"

section \<open>Notification scheduler\<close>

text \<open>
  \<^verbatim>\<open>time.split(':').map(Number)\<close>. \<open>splitStr\<close> is \<^verbatim>\<open>String.prototype.split\<close> on a one-character
  separator. \<open>Number\<close> converts a string of decimal digits (the empty string is \<open>0\<close>);
  \<open>None\<close> is \<^verbatim>\<open>NaN\<close>. Literals with a sign, a fraction, an exponent, a radix prefix or
  surrounding white space do not occur in a time of day and are read as \<open>None\<close> too.
\<close>

fun splitStr :: "char \<Rightarrow> string \<Rightarrow> string list" where
  "splitStr sep [] = [[]]"
| "splitStr sep (c # cs) =
     (if c = sep then [] # splitStr sep cs
      else (case splitStr sep cs of
              [] \<Rightarrow> [[c]]
            | p # ps \<Rightarrow> (c # p) # ps))"

definition isDigit :: "char \<Rightarrow> bool" where
  "isDigit c = (CHR ''0'' \<le> c \<and> c \<le> CHR ''9'')"

definition digitValue :: "char \<Rightarrow> nat" where
  "digitValue c = of_char c - of_char CHR ''0''"

definition Number :: "string \<Rightarrow> nat option" where
  "Number str =
     (if list_all isDigit str then Some (foldl (\<lambda>n c. 10 * n + digitValue c) 0 str)
      else None)"

definition msPerDay :: int where
  "msPerDay = 86400000"

text \<open>
  Local time as \<^verbatim>\<open>Date\<close> computes it. \<open>localTime\<close> is the language's \<^verbatim>\<open>LocalTime\<close>: the
  time value plus the offset in force at that instant. \<open>utcOf\<close> is its \<^verbatim>\<open>UTC\<close>, which
  turns a local time back into a time value: a local time that the clock shows twice
  (it was set back) is taken as the earlier instant, and a local time that the clock
  skips (it was set forward) is read with the offset from before the change, so that
  it lands after the gap.
\<close>

definition offsetAt :: "timeZone \<Rightarrow> int \<Rightarrow> int" where
  "offsetAt z t = (if t < transition z then offsetBefore z else offsetAfter z)"

definition localTime :: "timeZone \<Rightarrow> int \<Rightarrow> int" where
  "localTime z t = t + offsetAt z t"

definition utcOf :: "timeZone \<Rightarrow> int \<Rightarrow> int" where
  "utcOf z loc =
     (if loc - offsetBefore z < transition z then loc - offsetBefore z
      else if transition z \<le> loc - offsetAfter z then loc - offsetAfter z
      else loc - offsetBefore z)"

text \<open>
  \<^verbatim>\<open>d.setHours(hours, minutes, 0, 0)\<close>: the local calendar day of \<open>d\<close> with the given hours
  and minutes as time within the day (values past 23 or 59 carry over, as in the
  source), turned back into a time value. \<^verbatim>\<open>d.setDate(d.getDate() + 1)\<close>: the local time
  of \<open>d\<close> on the next calendar day, turned back into a time value.
\<close>

definition setHours :: "timeZone \<Rightarrow> int \<Rightarrow> nat \<Rightarrow> nat \<Rightarrow> int" where
  "setHours z d hours minutes =
     utcOf z ((localTime z d div msPerDay) * msPerDay +
              int hours * 3600000 + int minutes * 60000)"

definition setDateNextDay :: "timeZone \<Rightarrow> int \<Rightarrow> int" where
  "setDateNextDay z d = utcOf z (localTime z d + msPerDay)"

text \<open>
  \<^verbatim>\<open>const [hours, minutes] = time.split(':').map(Number)\<close>: the first two parts, when
  both are numbers. Without a second part \<^verbatim>\<open>minutes\<close> is \<^verbatim>\<open>undefined\<close>, which
  \<^verbatim>\<open>setHours\<close> treats as \<^verbatim>\<open>NaN\<close>.
\<close>

definition hoursMinutes :: "string \<Rightarrow> (nat \<times> nat) option" where
  "hoursMinutes time =
     (case map Number (splitStr CHR '':'' time) of
        Some hours # Some minutes # rest \<Rightarrow> Some (hours, minutes)
      | _ \<Rightarrow> None)"

text \<open>
  The first half of \<^verbatim>\<open>scheduleNotificationForTime\<close>: the time value of the variable
  \<^verbatim>\<open>scheduledTime\<close> when the timer is set; \<open>None\<close> is an invalid date. The comparison
  \<^verbatim>\<open>scheduledTime <= now\<close> is one of time values.
\<close>

definition armTarget :: "clock \<Rightarrow> string \<Rightarrow> int option" where
  "armTarget clk time =
     (case hoursMinutes time of
        Some (hours, minutes) \<Rightarrow>
          (let now = epochMillis clk;
               scheduledTime' = setHours (zone clk) now hours minutes
           in Some (if scheduledTime' \<le> now then setDateNextDay (zone clk) scheduledTime'
                    else scheduledTime'))
      | None \<Rightarrow> None)"

text \<open>
  The second half: \<^verbatim>\<open>setTimeout(callback, scheduledTime - now)\<close>. A delay of \<^verbatim>\<open>NaN\<close> runs
  the callback at once. Nothing is cancelled and no handle is kept.
\<close>

definition scheduleNotificationForTime :: "clock \<Rightarrow> medication \<Rightarrow> string \<Rightarrow> app \<Rightarrow> app" where
  "scheduleNotificationForTime clk med time s =
     (let now = epochMillis clk;
          timeUntilNotification =
            (case armTarget clk time of None \<Rightarrow> 0 | Some scheduledTime' \<Rightarrow> scheduledTime' - now)
      in s\<lparr>timers := timers s @
             [\<lparr>due = now + timeUntilNotification, timerMedication = med, timerTime = time\<rparr>]\<rparr>)"

definition scheduleNotifications :: "clock \<Rightarrow> medication \<Rightarrow> app \<Rightarrow> app" where
  "scheduleNotifications clk med s =
     (if \<not> notificationPermission s then s
      else fold (\<lambda>time s'. scheduleNotificationForTime clk med time s') (med_times med) s)"

definition showMedicationNotification :: "medication \<Rightarrow> string \<Rightarrow> app \<Rightarrow> app" where
  "showMedicationNotification med time s =
     (if \<not> notificationPermission s then s
      else s\<lparr>notifications := notifications s @
             [\<lparr>title = ''Time for '' @ name med,
               body = ''Take your '' @ dosage med @ '' '' @ name med @ '' now'',
               tag = ''medication-'' @ med_id med @ ''-'' @ time,
               withSound = soundEnabled (settings s),
               withVibration = (vibrationEnabled (settings s) \<and> vibrateSupported s)\<rparr>]\<rparr>)"

text \<open>
  The callback of the \<open>i\<close>-th pending timer runs at clock reading \<open>clk\<close>: the timer is
  spent, the notification is shown and the pair is armed again. \<open>None\<close> when there is no
  such timer.
\<close>

definition fireTimer :: "clock \<Rightarrow> nat \<Rightarrow> app \<Rightarrow> app option" where
  "fireTimer clk i s =
     (if i < length (timers s) then
        (let t = timers s ! i;
             s1 = s\<lparr>timers := take i (timers s) @ drop (Suc i) (timers s)\<rparr>;
             s2 = showMedicationNotification (timerMedication t) (timerTime t) s1
         in Some (scheduleNotificationForTime clk (timerMedication t) (timerTime t) s2))
      else None)"

text \<open>The \<^verbatim>\<open>visibilitychange\<close> listener; \<open>hidden\<close> is \<^verbatim>\<open>document.hidden\<close>.\<close>

definition visibilitychange :: "clock \<Rightarrow> bool \<Rightarrow> app \<Rightarrow> app" where
  "visibilitychange clk hidden s =
     (if \<not> hidden \<and> notificationPermission s
      then fold (\<lambda>med s'. scheduleNotifications clk med s') (medications s) s
      else s)"

section \<open>Medication management\<close>

record medicationData =
  dataName :: string
  dataDosage :: string
  dataTimesPerDay :: int
  dataTimes :: "string list"

definition isWhiteSpace :: "char \<Rightarrow> bool" where
  "isWhiteSpace c = (c \<in> set [CHR '' '', CHR 0x09, CHR 0x0A, CHR 0x0B, CHR 0x0C, CHR 0x0D])"

definition trim :: "string \<Rightarrow> string" where
  "trim str = rev (dropWhile isWhiteSpace (rev (dropWhile isWhiteSpace str)))"

definition addMedication :: "clock \<Rightarrow> medicationData \<Rightarrow> app \<Rightarrow> app" where
  "addMedication clk medData s =
     (let med = \<lparr>med_id = timestamp clk,
                 name = trim (dataName medData),
                 dosage = trim (dataDosage medData),
                 timesPerDay = dataTimesPerDay medData,
                 med_times = dataTimes medData,
                 createdAt = isoString clk,
                 isActive = True\<rparr>
      in scheduleNotifications clk med (saveData (s\<lparr>medications := medications s @ [med]\<rparr>)))"

definition deleteMedication :: "string \<Rightarrow> app \<Rightarrow> app" where
  "deleteMedication medId s = showConfirmDialog (ConfirmDelete medId) s"

section \<open>Import and clearing\<close>

text \<open>
  The parsed import file. \<open>Unparsable\<close> is a \<^verbatim>\<open>JSON.parse\<close> exception and \<open>NullDocument\<close> the
  JSON text \<^verbatim>\<open>null\<close>, on which reading \<^verbatim>\<open>data.medications\<close> raises; both end in the
  \<^verbatim>\<open>catch\<close> block. Any other value is a \<open>Document\<close>: each of the three top-level fields
  is absent (or falsy), present but not of the container type the source tests for, or
  a container. The settings of a document may give any subset of the four keys.
\<close>

datatype 'a topField = Absent | NotContainer | Container 'a

record settingsPatch =
  patchSoundEnabled :: "bool option"
  patchVibrationEnabled :: "bool option"
  patchHighContrast :: "bool option"
  patchTextSize :: "string option"

datatype importFile =
  Unparsable
  | NullDocument
  | Document "medication list topField" "historyEntry list topField" "settingsPatch topField"

definition spreadSettings :: "appSettings \<Rightarrow> settingsPatch \<Rightarrow> appSettings" where
  "spreadSettings old p =
     \<lparr>soundEnabled = (case patchSoundEnabled p of None \<Rightarrow> soundEnabled old | Some v \<Rightarrow> v),
      vibrationEnabled =
        (case patchVibrationEnabled p of None \<Rightarrow> vibrationEnabled old | Some v \<Rightarrow> v),
      highContrast = (case patchHighContrast p of None \<Rightarrow> highContrast old | Some v \<Rightarrow> v),
      textSize = (case patchTextSize p of None \<Rightarrow> textSize old | Some v \<Rightarrow> v)\<rparr>"

definition importData :: "importFile \<Rightarrow> app \<Rightarrow> app" where
  "importData file s =
     (case file of
        Unparsable \<Rightarrow> s
      | NullDocument \<Rightarrow> s
      | Document dataMedications dataHistory dataSettings \<Rightarrow>
          (let s1 = (case dataMedications of Container ms \<Rightarrow> s\<lparr>medications := ms\<rparr> | _ \<Rightarrow> s);
               s2 = (case dataHistory of Container h \<Rightarrow> s1\<lparr>history := h\<rparr> | _ \<Rightarrow> s1);
               s3 = (case dataSettings of
                       Container p \<Rightarrow> s2\<lparr>settings := spreadSettings (settings s2) p\<rparr>
                     | _ \<Rightarrow> s2)
           in saveData s3))"

definition clearAllData :: "app \<Rightarrow> app" where
  "clearAllData s = showConfirmDialog ConfirmClearAll s"

section \<open>The confirm dialog\<close>

text \<open>
  The body of each callback handed to \<^verbatim>\<open>showConfirmDialog\<close>, run at the clock reading of
  the click on "yes"; \<open>confirmNo\<close> only closes the dialog.
\<close>

fun runCallback :: "clock \<Rightarrow> callback \<Rightarrow> app \<Rightarrow> app" where
  "runCallback clk (ConfirmDelete medId) s =
     saveData (s\<lparr>medications := filter (\<lambda>med. med_id med \<noteq> medId) (medications s)\<rparr>)"
| "runCallback clk (ConfirmUndo medId time) s = removeMedicationRecord clk medId time s"
| "runCallback clk ConfirmClearAll s =
     s\<lparr>medications := [],
       history := [],
       storage := (storage s)(''seniorMed_medications'' := None, ''seniorMed_history'' := None)\<rparr>"

definition confirmYes :: "clock \<Rightarrow> app \<Rightarrow> app" where
  "confirmYes clk s =
     (case dialog s of
        None \<Rightarrow> s
      | Some onConfirm \<Rightarrow> (runCallback clk onConfirm s)\<lparr>dialog := None\<rparr>)"

definition confirmNo :: "app \<Rightarrow> app" where
  "confirmNo s = s\<lparr>dialog := None\<rparr>"

section \<open>Times of day\<close>

text \<open>
  The value of an \<^verbatim>\<open><input type="time">\<close>: two digits, a colon, two digits, the hour
  below 24 and the minute below 60. \<open>minutesOfDay\<close> is the time of day such a string
  stands for, counted in minutes and read off its four digits. \<open>timesWellFormed\<close> says
  that every configured time of every medication of the store is of that form.
\<close>

definition wellFormedTime :: "string \<Rightarrow> bool" where
  "wellFormedTime time =
     (case time of
        [h1, h2, c, m1, m2] \<Rightarrow>
          isDigit h1 \<and> isDigit h2 \<and> c = CHR '':'' \<and> isDigit m1 \<and> isDigit m2 \<and>
          10 * digitValue h1 + digitValue h2 < 24 \<and> 10 * digitValue m1 + digitValue m2 < 60
      | _ \<Rightarrow> False)"

definition minutesOfDay :: "string \<Rightarrow> nat" where
  "minutesOfDay time =
     (case time of
        [h1, h2, c, m1, m2] \<Rightarrow>
          60 * (10 * digitValue h1 + digitValue h2) + (10 * digitValue m1 + digitValue m2)
      | _ \<Rightarrow> 0)"

definition timesWellFormed :: "app \<Rightarrow> bool" where
  "timesWellFormed s = list_all (\<lambda>med. list_all wellFormedTime (med_times med)) (medications s)"

text \<open>
  What the wall clock of a zone shows at an instant: \<open>dayOf\<close> is the local calendar day
  (counted from the epoch) and \<open>wallClock\<close> the time within that day in milliseconds.
  \<open>noShiftNear z now\<close> says that the zone's change of offset, if it has one, is not
  close to \<open>now\<close>: it lies two days or more ahead, or it lies a day or more behind and,
  where the clock was set back, by the size of that step more.
\<close>

definition dayOf :: "timeZone \<Rightarrow> int \<Rightarrow> int" where
  "dayOf z t = localTime z t div msPerDay"

definition wallClock :: "timeZone \<Rightarrow> int \<Rightarrow> int" where
  "wallClock z t = localTime z t mod msPerDay"


section \<open>Concrete states\<close>

text \<open>
  The state the constructor builds and the same with permission granted and Aspirin in
  the store; clock readings at 09:00 and at 20:00 on 3 November 2026 (day 20760) in a
  zone that keeps UTC; a clock reading at 01:00 local time on 8 March 2026 in a zone
  five hours behind UTC whose clock is set forward by one hour at 02:00 that night
  (07:00 UTC), as in New York, and one at 01:30 on 1 November 2026 in the same zone,
  half an hour after its clock was set back from 02:00 to 01:00 (06:00 UTC); the
  medication of the specification's scenario and a
  second one; log entries for the first.
\<close>

definition utcZone :: timeZone where
  "utcZone = \<lparr>transition = 0, offsetBefore = 0, offsetAfter = 0\<rparr>"



definition initialApp :: app where
  "initialApp =
     \<lparr>medications = [], history = [],
      settings = \<lparr>soundEnabled = True, vibrationEnabled = True, highContrast = False,
                  textSize = ''normal''\<rparr>,
      currentScreen = ''loading-screen'', notificationPermission = False,
      storage = Map.empty, storageFull = False, vibrateSupported = True,
      timers = [], notifications = [], dialog = None\<rparr>"

definition nineOClock :: clock where
  "nineOClock =
     \<lparr>timestamp = ''1793696400000'', isoString = ''2026-11-03T09:00:00.000Z'',
      dateString = ''Tue Nov 03 2026'', epochMillis = 1793696400000, zone = utcZone\<rparr>"

definition aspirin :: medication where
  "aspirin =
     \<lparr>med_id = ''1793690000000'', name = ''Aspirin'', dosage = ''81mg'', timesPerDay = 2,
      med_times = [''08:00'', ''20:00''], createdAt = ''2026-11-03T07:13:20.000Z'',
      isActive = True\<rparr>"

definition vitaminD :: medication where
  "vitaminD =
     \<lparr>med_id = ''1793690500000'', name = ''Vitamin D'', dosage = ''1000 IU'', timesPerDay = 1,
      med_times = [''07:30''], createdAt = ''2026-11-03T07:21:40.000Z'', isActive = True\<rparr>"

definition granted :: app where
  "granted = initialApp\<lparr>medications := [aspirin], notificationPermission := True\<rparr>"

definition eightPM :: clock where
  "eightPM =
     \<lparr>timestamp = ''1793736000000'', isoString = ''2026-11-03T20:00:00.000Z'',
      dateString = ''Tue Nov 03 2026'', epochMillis = 1793736000000, zone = utcZone\<rparr>"

definition autumnZone :: timeZone where
  "autumnZone =
     \<lparr>transition = 1793512800000, offsetBefore = - 14400000, offsetAfter = - 18000000\<rparr>"

definition autumnNight :: clock where
  "autumnNight =
     \<lparr>timestamp = ''1793514600000'', isoString = ''2026-11-01T06:30:00.000Z'',
      dateString = ''Sun Nov 01 2026'', epochMillis = 1793514600000, zone = autumnZone\<rparr>"

definition logEntry :: "string \<Rightarrow> string \<Rightarrow> string \<Rightarrow> historyEntry" where
  "logEntry act time day =
     \<lparr>entry_id = ''1793696400000'', medicationId = ''1793690000000'',
      medicationName = ''Aspirin'', action = act, scheduledTime = time,
      actualTime = ''2026-11-03T09:00:00.000Z'', date = day\<rparr>"

section \<open>What saving leaves alone\<close>

lemma history_saveData: "history (saveData s) = history s"
  by (simp add: saveData_def)

lemma medications_saveData: "medications (saveData s) = medications s"
  by (simp add: saveData_def)

lemma settings_saveData: "settings (saveData s) = settings s"
  by (simp add: saveData_def)

lemma timers_saveData: "timers (saveData s) = timers s"
  by (simp add: saveData_def)

lemma notificationPermission_saveData:
  "notificationPermission (saveData s) = notificationPermission s"
  by (simp add: saveData_def)

section \<open>Facts about the time groups\<close>

lemma groupAt_update:
  "groupAt (AList.update k v tg) t = (if t = k then v else groupAt tg t)"
  by (simp add: groupAt_def update_conv')

lemma pushMedication_eq:
  "pushMedication med time tg = AList.update time (groupAt tg time @ [med]) tg"
  by (simp add: pushMedication_def groupAt_def update_conv' split: option.splits)

lemma groupAt_pushMedication:
  "groupAt (pushMedication med time tg) t = groupAt tg t @ (if t = time then [med] else [])"
  by (simp add: pushMedication_eq groupAt_update)

lemma keys_pushMedication:
  "map fst (pushMedication med time tg) =
     (if time \<in> set (map fst tg) then map fst tg else map fst tg @ [time])"
  by (simp add: pushMedication_eq update_keys)

lemma groupAt_fold_times:
  "groupAt (fold (pushMedication med) ts tg) t = groupAt tg t @ replicate (count_list ts t) med"
  by (induction ts arbitrary: tg) (simp_all add: groupAt_pushMedication replicate_app_Cons_same)

lemma keys_fold_times:
  "set (map fst (fold (pushMedication med) ts tg)) = set (map fst tg) \<union> set ts"
  by (induction ts arbitrary: tg) (auto simp add: keys_pushMedication simp del: set_map)

lemma distinct_fold_times:
  "distinct (map fst tg) \<Longrightarrow> distinct (map fst (fold (pushMedication med) ts tg))"
  by (induction ts arbitrary: tg) (simp_all add: keys_pushMedication)

lemma groupAt_fold_meds:
  "groupAt (fold (\<lambda>med tg. fold (pushMedication med) (med_times med) tg) meds tg) t =
     groupAt tg t @ concat (map (\<lambda>med. replicate (count_list (med_times med) t) med) meds)"
  by (induction meds arbitrary: tg) (simp_all add: groupAt_fold_times)

lemma keys_fold_meds:
  "set (map fst (fold (\<lambda>med tg. fold (pushMedication med) (med_times med) tg) meds tg)) =
     set (map fst tg) \<union> (\<Union>med \<in> set meds. set (med_times med))"
  by (induction meds arbitrary: tg) (auto simp add: keys_fold_times simp del: set_map)

lemma distinct_fold_meds:
  "distinct (map fst tg) \<Longrightarrow>
   distinct (map fst (fold (\<lambda>med tg. fold (pushMedication med) (med_times med) tg) meds tg))"
  by (induction meds arbitrary: tg) (simp_all add: distinct_fold_times)

text \<open>
  The group of a time holds every medication of the store as often as the time stands
  among its times, in the order of the store.
\<close>

lemma groupAt_groupMedicationsByTime:
  "groupAt (groupMedicationsByTime s) t =
     concat (map (\<lambda>med. replicate (count_list (med_times med) t) med) (medications s))"
  by (simp add: groupMedicationsByTime_def groupAt_fold_meds) (simp add: groupAt_def)

lemma keys_groupMedicationsByTime:
  "set (map fst (groupMedicationsByTime s)) = (\<Union>med \<in> set (medications s). set (med_times med))"
  unfolding groupMedicationsByTime_def keys_fold_meds by simp

lemma distinct_groupMedicationsByTime: "distinct (map fst (groupMedicationsByTime s))"
  unfolding groupMedicationsByTime_def by (rule distinct_fold_meds) simp

lemma in_groupAt_iff:
  "med \<in> set (groupAt (groupMedicationsByTime s) t) \<longleftrightarrow>
     med \<in> set (medications s) \<and> t \<in> set (med_times med)"
  by (auto simp add: groupAt_groupMedicationsByTime count_list_0_iff)

lemma entry_groupAt:
  "(k, g) \<in> set (groupMedicationsByTime s) \<Longrightarrow> g = groupAt (groupMedicationsByTime s) k"
  using distinct_groupMedicationsByTime [of s] by (simp add: groupAt_def)

section \<open>Facts about times of day\<close>

lemma isDigit_of_char: "isDigit c \<longleftrightarrow> 48 \<le> (of_char c :: nat) \<and> (of_char c :: nat) \<le> 57"
  by (simp add: isDigit_def less_eq_char_def)


lemma digit_le_iff: "isDigit a \<Longrightarrow> isDigit b \<Longrightarrow> a \<le> b \<longleftrightarrow> digitValue a \<le> digitValue b"
  by (auto simp add: isDigit_of_char digitValue_def less_eq_char_def)

lemma digit_less_iff: "isDigit a \<Longrightarrow> isDigit b \<Longrightarrow> a < b \<longleftrightarrow> digitValue a < digitValue b"
  by (auto simp add: isDigit_of_char digitValue_def less_char_def)

lemma digit_eq_iff: "isDigit a \<Longrightarrow> isDigit b \<Longrightarrow> a = b \<longleftrightarrow> digitValue a = digitValue b"
  using digit_le_iff [of a b] digit_le_iff [of b a] by auto

lemma digitValue_less: "isDigit a \<Longrightarrow> digitValue a < 10"
  by (auto simp add: isDigit_of_char digitValue_def)


lemma wellFormedTime_cases:
  assumes "wellFormedTime t"
  obtains h1 h2 m1 m2 where "t = [h1, h2, CHR '':'', m1, m2]"
    "isDigit h1" "isDigit h2" "isDigit m1" "isDigit m2"
    "10 * digitValue h1 + digitValue h2 < 24" "10 * digitValue m1 + digitValue m2 < 60"
  using assms by (auto simp add: wellFormedTime_def split: list.splits)



text \<open>On well-formed times the order of the strings is the order of the times of day.\<close>

lemma wellFormed_le_iff:
  assumes "wellFormedTime a" "wellFormedTime b"
  shows "a \<le> b \<longleftrightarrow> minutesOfDay a \<le> minutesOfDay b"
proof -
  from assms(1) obtain a1 a2 a3 a4 where a: "a = [a1, a2, CHR '':'', a3, a4]"
    "isDigit a1" "isDigit a2" "isDigit a3" "isDigit a4"
    "10 * digitValue a3 + digitValue a4 < 60"
    by (rule wellFormedTime_cases)
  from assms(2) obtain b1 b2 b3 b4 where b: "b = [b1, b2, CHR '':'', b3, b4]"
    "isDigit b1" "isDigit b2" "isDigit b3" "isDigit b4"
    "10 * digitValue b3 + digitValue b4 < 60"
    by (rule wellFormedTime_cases)
  have lt: "digitValue a1 < 10" "digitValue a2 < 10" "digitValue a3 < 10" "digitValue a4 < 10"
    "digitValue b1 < 10" "digitValue b2 < 10" "digitValue b3 < 10" "digitValue b4 < 10"
    using a b by (simp_all add: digitValue_less)
  have "a \<le> b \<longleftrightarrow>
     digitValue a1 < digitValue b1 \<or> digitValue a1 = digitValue b1 \<and>
       (digitValue a2 < digitValue b2 \<or> digitValue a2 = digitValue b2 \<and>
         (digitValue a3 < digitValue b3 \<or> digitValue a3 = digitValue b3 \<and>
            (digitValue a4 < digitValue b4 \<or> digitValue a4 = digitValue b4)))"
    using a b by (simp add: digit_less_iff digit_eq_iff)
  also have "\<dots> \<longleftrightarrow> minutesOfDay a \<le> minutesOfDay b"
    using a b lt by (simp add: minutesOfDay_def) arith
  finally show ?thesis .
qed

text \<open>
  Away from a change of offset the zone is a fixed offset on today and tomorrow: local
  times of the two days go back to time values by that offset, and the instants of the
  two days show the local time that the offset gives.
\<close>

lemma localTime_now: "localTime z now = now + offsetAt z now"
  by (simp add: localTime_def)




lemma time_examples:
  "wellFormedTime ''01:45''" "wellFormedTime ''02:30''" "wellFormedTime ''08:00''"
  "wellFormedTime ''10:00''"
  "minutesOfDay ''01:45'' = 105" "minutesOfDay ''02:30'' = 150" "minutesOfDay ''08:00'' = 480"
  "minutesOfDay ''10:00'' = 600"
  "hoursMinutes ''01:45'' = Some (1, 45)" "hoursMinutes ''02:30'' = Some (2, 30)"
  "hoursMinutes ''08:00'' = Some (8, 0)" "hoursMinutes ''10:00'' = Some (10, 0)"
  "hoursMinutes ''20:00'' = Some (20, 0)"
  by (simp_all add: wellFormedTime_def minutesOfDay_def hoursMinutes_def Number_def isDigit_def
      digitValue_def)

section \<open>Status of a slot\<close>

text \<open>
  C1. \<^verbatim>\<open>isMedicationTakenToday\<close> answers "taken" exactly when the log holds an entry with
  this medication id, this scheduled time, today's date string and the action
  \<^verbatim>\<open>'taken'\<close>. Entries with another action or of another day have no influence: the
  answer is the same on the log with all of them removed.
\<close>

theorem isMedicationTakenToday_iff:
  "(isMedicationTakenToday clk m t s \<longleftrightarrow>
      (\<exists>e \<in> set (history s). medicationId e = m \<and> scheduledTime e = t \<and>
          date e = dateString clk \<and> action e = ''taken'')) \<and>
   isMedicationTakenToday clk m t s =
     isMedicationTakenToday clk m t
       (s\<lparr>history := filter (\<lambda>e. action e = ''taken'' \<and> date e = dateString clk) (history s)\<rparr>)"
  by (auto simp add: isMedicationTakenToday_def list_ex_iff)

theorem isMedicationTakenToday_iff_witness:
  "isMedicationTakenToday nineOClock ''1793690000000'' ''08:00''
     (initialApp\<lparr>history := [logEntry ''missed'' ''20:00'' ''Tue Nov 03 2026'',
                              logEntry ''taken'' ''20:00'' ''Mon Nov 02 2026'',
                              logEntry ''taken'' ''08:00'' ''Tue Nov 03 2026'']\<rparr>) \<and>
   \<not> isMedicationTakenToday nineOClock ''1793690000000'' ''20:00''
     (initialApp\<lparr>history := [logEntry ''missed'' ''20:00'' ''Tue Nov 03 2026'',
                              logEntry ''taken'' ''20:00'' ''Mon Nov 02 2026'',
                              logEntry ''taken'' ''08:00'' ''Tue Nov 03 2026'']\<rparr>)"
  using isMedicationTakenToday_iff [of nineOClock "''1793690000000''" "''08:00''"
     "initialApp\<lparr>history := [logEntry ''missed'' ''20:00'' ''Tue Nov 03 2026'',
                              logEntry ''taken'' ''20:00'' ''Mon Nov 02 2026'',
                              logEntry ''taken'' ''08:00'' ''Tue Nov 03 2026'']\<rparr>"]
    isMedicationTakenToday_iff [of nineOClock "''1793690000000''" "''20:00''"
     "initialApp\<lparr>history := [logEntry ''missed'' ''20:00'' ''Tue Nov 03 2026'',
                              logEntry ''taken'' ''20:00'' ''Mon Nov 02 2026'',
                              logEntry ''taken'' ''08:00'' ''Tue Nov 03 2026'']\<rparr>"]
  by (simp add: nineOClock_def logEntry_def)

section \<open>Undoing a mark\<close>

text \<open>
  C2 as stated fails. The slot 08:00 of today holds a \<^verbatim>\<open>'taken'\<close> and a \<^verbatim>\<open>'missed'\<close>
  entry; after the confirmed toggle the log is empty, so the \<^verbatim>\<open>'missed'\<close> entry of the
  slot went with the \<^verbatim>\<open>'taken'\<close> one.
\<close>

theorem toggle_undo_counterexample:
  "isMedicationTakenToday nineOClock ''1793690000000'' ''08:00''
     (initialApp\<lparr>history := [logEntry ''taken'' ''08:00'' ''Tue Nov 03 2026'',
                              logEntry ''missed'' ''08:00'' ''Tue Nov 03 2026'']\<rparr>) \<and>
   history (confirmYes nineOClock (toggleMedicationStatus nineOClock ''1793690000000'' ''08:00''
     (initialApp\<lparr>history := [logEntry ''taken'' ''08:00'' ''Tue Nov 03 2026'',
                              logEntry ''missed'' ''08:00'' ''Tue Nov 03 2026'']\<rparr>))) = []"
  by (simp add: isMedicationTakenToday_def toggleMedicationStatus_def showConfirmDialog_def
      confirmYes_def removeMedicationRecord_def history_saveData nineOClock_def logEntry_def)

text \<open>
  C2, amended. When the slot \<open>(m, t)\<close> is taken, the toggle opens the confirm dialog, and
  the click on "yes" (at clock reading \<open>clk'\<close>) removes every log entry of the slot for
  that day, whatever its action, and keeps all other entries, in their order: those of
  another medication, another time or another day. The slot is unmarked afterwards.
\<close>

theorem toggle_undo_removes_slot:
  assumes "isMedicationTakenToday clk m t s"
  shows "history (confirmYes clk' (toggleMedicationStatus clk m t s)) =
           filter (\<lambda>e. \<not> (medicationId e = m \<and> scheduledTime e = t \<and> date e = dateString clk'))
             (history s) \<and>
         \<not> isMedicationTakenToday clk' m t (confirmYes clk' (toggleMedicationStatus clk m t s))"
  using assms
  by (simp add: toggleMedicationStatus_def showConfirmDialog_def confirmYes_def
      removeMedicationRecord_def history_saveData isMedicationTakenToday_def list_ex_iff)

theorem toggle_undo_removes_slot_witness:
  "history (confirmYes nineOClock (toggleMedicationStatus nineOClock ''1793690000000'' ''08:00''
     (initialApp\<lparr>history := [logEntry ''taken'' ''08:00'' ''Tue Nov 03 2026'',
                              logEntry ''missed'' ''08:00'' ''Tue Nov 03 2026'',
                              logEntry ''taken'' ''20:00'' ''Tue Nov 03 2026'',
                              logEntry ''taken'' ''08:00'' ''Mon Nov 02 2026'']\<rparr>))) =
     [logEntry ''taken'' ''20:00'' ''Tue Nov 03 2026'',
      logEntry ''taken'' ''08:00'' ''Mon Nov 02 2026'']"
proof -
  have taken: "isMedicationTakenToday nineOClock ''1793690000000'' ''08:00''
     (initialApp\<lparr>history := [logEntry ''taken'' ''08:00'' ''Tue Nov 03 2026'',
                              logEntry ''missed'' ''08:00'' ''Tue Nov 03 2026'',
                              logEntry ''taken'' ''20:00'' ''Tue Nov 03 2026'',
                              logEntry ''taken'' ''08:00'' ''Mon Nov 02 2026'']\<rparr>)"
    by (simp add: isMedicationTakenToday_def nineOClock_def logEntry_def)
  show ?thesis
    using toggle_undo_removes_slot [OF taken, of nineOClock]
    by (simp add: nineOClock_def logEntry_def)
qed

section \<open>Import\<close>

text \<open>
  C6 as stated fails. A document whose \<^verbatim>\<open>medications\<close> is an array, whose \<^verbatim>\<open>history\<close> is
  not one and which has no \<^verbatim>\<open>settings\<close> is not rejected: the medications are replaced and
  the log stays, a partial replacement.
\<close>

theorem importData_counterexample:
  "medications (importData (Document (Container [aspirin]) NotContainer Absent)
       (initialApp\<lparr>history := [logEntry ''taken'' ''08:00'' ''Tue Nov 03 2026'']\<rparr>)) = [aspirin] \<and>
   medications (initialApp\<lparr>history := [logEntry ''taken'' ''08:00'' ''Tue Nov 03 2026'']\<rparr>) = [] \<and>
   history (importData (Document (Container [aspirin]) NotContainer Absent)
       (initialApp\<lparr>history := [logEntry ''taken'' ''08:00'' ''Tue Nov 03 2026'']\<rparr>)) =
     [logEntry ''taken'' ''08:00'' ''Tue Nov 03 2026'']"
  by (simp add: importData_def initialApp_def history_saveData medications_saveData)

text \<open>
  C6, amended. A file that does not parse, or parses to \<^verbatim>\<open>null\<close>, changes nothing. Any
  other document is taken field by field, each on its own test: the medications are
  replaced when the document's \<^verbatim>\<open>medications\<close> is an array, the log is replaced when its
  \<^verbatim>\<open>history\<close> is an array, and the keys of its \<^verbatim>\<open>settings\<close>, when that is an object, are
  written over the current settings; a field that is absent or of another type leaves
  its part of the state as it was.
\<close>

theorem importData_fieldwise:
  "importData Unparsable s = s \<and> importData NullDocument s = s \<and>
   medications (importData (Document dm dh ds) s) =
     (case dm of Container ms \<Rightarrow> ms | _ \<Rightarrow> medications s) \<and>
   history (importData (Document dm dh ds) s) =
     (case dh of Container h \<Rightarrow> h | _ \<Rightarrow> history s) \<and>
   settings (importData (Document dm dh ds) s) =
     (case ds of Container p \<Rightarrow> spreadSettings (settings s) p | _ \<Rightarrow> settings s)"
  by (simp add: importData_def history_saveData medications_saveData settings_saveData
      split: topField.splits)

theorem importData_fieldwise_witness:
  "medications (importData (Document Absent (Container [logEntry ''taken'' ''08:00'' ''Tue Nov 03 2026''])
       (Container \<lparr>patchSoundEnabled = None, patchVibrationEnabled = None,
                   patchHighContrast = Some True, patchTextSize = Some ''large''\<rparr>))
     (initialApp\<lparr>medications := [aspirin]\<rparr>)) = [aspirin] \<and>
   history (importData (Document Absent (Container [logEntry ''taken'' ''08:00'' ''Tue Nov 03 2026''])
       (Container \<lparr>patchSoundEnabled = None, patchVibrationEnabled = None,
                   patchHighContrast = Some True, patchTextSize = Some ''large''\<rparr>))
     (initialApp\<lparr>medications := [aspirin]\<rparr>)) = [logEntry ''taken'' ''08:00'' ''Tue Nov 03 2026''] \<and>
   settings (importData (Document Absent (Container [logEntry ''taken'' ''08:00'' ''Tue Nov 03 2026''])
       (Container \<lparr>patchSoundEnabled = None, patchVibrationEnabled = None,
                   patchHighContrast = Some True, patchTextSize = Some ''large''\<rparr>))
     (initialApp\<lparr>medications := [aspirin]\<rparr>)) =
     \<lparr>soundEnabled = True, vibrationEnabled = True, highContrast = True, textSize = ''large''\<rparr>"
  using importData_fieldwise [of "initialApp\<lparr>medications := [aspirin]\<rparr>" Absent
      "Container [logEntry ''taken'' ''08:00'' ''Tue Nov 03 2026'']"
      "Container \<lparr>patchSoundEnabled = None, patchVibrationEnabled = None,
                   patchHighContrast = Some True, patchTextSize = Some ''large''\<rparr>"]
  by (simp add: initialApp_def spreadSettings_def)

section \<open>Clearing all data\<close>

text \<open>
  C10. The confirmed \<^verbatim>\<open>clearAllData\<close> empties the medications and the log and removes
  their two keys from the store; the settings, and what the store holds under the
  settings key, are what they were.
\<close>

theorem clearAllData_keeps_settings:
  "medications (confirmYes clk (clearAllData s)) = [] \<and>
   history (confirmYes clk (clearAllData s)) = [] \<and>
   storage (confirmYes clk (clearAllData s)) ''seniorMed_medications'' = None \<and>
   storage (confirmYes clk (clearAllData s)) ''seniorMed_history'' = None \<and>
   settings (confirmYes clk (clearAllData s)) = settings s \<and>
   storage (confirmYes clk (clearAllData s)) ''seniorMed_settings'' =
     storage s ''seniorMed_settings''"
  by (simp add: clearAllData_def showConfirmDialog_def confirmYes_def)

section \<open>The target of the arm step\<close>


text \<open>
  Nor is the target always the next occurrence where there is one. Half an hour after
  the clock was set back from 02:00 to 01:00, at the second 01:30, the dose time 01:45
  is armed for 01:45 of the next day, although the wall clock shows 01:45 a quarter of an
  hour later: \<^verbatim>\<open>setHours\<close> picks the first 01:45 of the day, which has passed.
\<close>

lemma armTarget_repeated_hour:
  "wallClock (zone autumnNight) (epochMillis autumnNight) = 5400000 \<and>
   armTarget autumnNight ''01:45'' = Some 1793601900000 \<and>
   epochMillis autumnNight < 1793515500000 \<and> 1793515500000 < (1793601900000 :: int) \<and>
   wallClock (zone autumnNight) 1793515500000 = int (minutesOfDay ''01:45'') * 60000"
  by (simp add: time_examples armTarget_def setHours_def setDateNextDay_def utcOf_def
      localTime_def offsetAt_def dayOf_def wallClock_def msPerDay_def autumnNight_def
      autumnZone_def)



section \<open>Who is due today\<close>

lemma count_list_replicate: "count_list (replicate n x) y = (if x = y then n else 0)"
  by (induction n) auto

lemma map_insort_key: "map f (insort_key f x xs) = insort (f x) (map f xs)"
  by (induction xs) simp_all

lemma map_sort_key: "map f (sort_key f xs) = sort (map f xs)"
  by (induction xs) (simp_all add: map_insort_key)

lemma count_slots:
  "count_list (concat (map (\<lambda>med. replicate (count_list (med_times med) t) med) meds)) m =
     count_list meds m * count_list (med_times m) t"
  by (induction meds) (simp_all add: count_list_replicate)

lemma count_list_distinct: "distinct xs \<Longrightarrow> x \<in> set xs \<Longrightarrow> count_list xs x = 1"
  by (induction xs) auto

lemma entry_iff:
  "(\<exists>g. (t, g) \<in> set (groupMedicationsByTime s) \<and> med \<in> set g) \<longleftrightarrow>
     med \<in> set (groupAt (groupMedicationsByTime s) t)"
proof
  assume "\<exists>g. (t, g) \<in> set (groupMedicationsByTime s) \<and> med \<in> set g"
  then show "med \<in> set (groupAt (groupMedicationsByTime s) t)"
    using entry_groupAt by blast
next
  assume "med \<in> set (groupAt (groupMedicationsByTime s) t)"
  then obtain g where "map_of (groupMedicationsByTime s) t = Some g" "med \<in> set g"
    by (cases "map_of (groupMedicationsByTime s) t") (auto simp add: groupAt_def)
  then show "\<exists>g. (t, g) \<in> set (groupMedicationsByTime s) \<and> med \<in> set g"
    by (blast dest: map_of_SomeD)
qed

lemma entry_of_store:
  "(\<exists>g. (t, g) \<in> set (groupMedicationsByTime s) \<and> med \<in> set g) \<longleftrightarrow>
     med \<in> set (medications s) \<and> t \<in> set (med_times med)"
  by (simp only: entry_iff in_groupAt_iff)

text \<open>
  C3 as stated fails. The store holds one medication whose \<^verbatim>\<open>isActive\<close> is false (as an
  imported file or the saved store may give it); it is in both of its time groups.
\<close>

theorem inactive_medication_counterexample:
  "\<not> isActive (aspirin\<lparr>isActive := False\<rparr>) \<and>
   groupMedicationsByTime (initialApp\<lparr>medications := [aspirin\<lparr>isActive := False\<rparr>]\<rparr>) =
     [(''08:00'', [aspirin\<lparr>isActive := False\<rparr>]), (''20:00'', [aspirin\<lparr>isActive := False\<rparr>])]"
  by (simp add: groupMedicationsByTime_def pushMedication_def groupAt_def aspirin_def)

text \<open>
  C3, amended. On a store whose times are all well formed, \<^verbatim>\<open>groupMedicationsByTime\<close>
  yields a mapping that does not depend on the active flag: a medication is in the group
  of a time exactly when it is in the store and the time is one of its configured times,
  whatever its \<^verbatim>\<open>isActive\<close>.
\<close>

theorem dueToday_every_stored_medication:
  assumes "timesWellFormed s"
  shows "(\<exists>g. (t, g) \<in> set (groupMedicationsByTime s) \<and> med \<in> set g) \<longleftrightarrow>
     med \<in> set (medications s) \<and> t \<in> set (med_times med)"
  by (rule entry_of_store)

theorem dueToday_every_stored_medication_witness:
  "timesWellFormed (initialApp\<lparr>medications := [aspirin\<lparr>isActive := False\<rparr>]\<rparr>) \<and>
   (\<exists>g. (''20:00'', g) \<in> set (groupMedicationsByTime
            (initialApp\<lparr>medications := [aspirin\<lparr>isActive := False\<rparr>]\<rparr>)) \<and>
        aspirin\<lparr>isActive := False\<rparr> \<in> set g)"
proof -
  have wf: "timesWellFormed (initialApp\<lparr>medications := [aspirin\<lparr>isActive := False\<rparr>]\<rparr>)"
    by (simp add: timesWellFormed_def aspirin_def wellFormedTime_def isDigit_def
        digitValue_def)
  show ?thesis
    using wf dueToday_every_stored_medication [OF wf, of "''20:00''" "aspirin\<lparr>isActive := False\<rparr>"]
    by (simp add: aspirin_def)
qed

section \<open>One slot per configured time, shown in order\<close>

lemma groups_containing:
  assumes "med \<in> set (medications s)" "distinct (med_times med)"
  shows "length (filter (\<lambda>(k, g). med \<in> set g) (groupMedicationsByTime s)) =
           length (med_times med)"
proof -
  let ?tg = "groupMedicationsByTime s"
  let ?ks = "map fst (filter (\<lambda>(k, g). med \<in> set g) ?tg)"
  have d: "distinct ?ks"
    using distinct_groupMedicationsByTime [of s] by (rule distinct_map_filter)
  have "set ?ks = {t. \<exists>g. (t, g) \<in> set ?tg \<and> med \<in> set g}"
    by force
  also have "\<dots> = set (med_times med)"
    using assms(1) by (simp add: entry_of_store)
  finally have "card (set ?ks) = card (set (med_times med))"
    by simp
  moreover have "card (set ?ks) = length ?ks"
    using d by (rule distinct_card)
  moreover have "card (set (med_times med)) = length (med_times med)"
    using assms(2) by (rule distinct_card)
  ultimately have "length ?ks = length (med_times med)"
    by simp
  then show ?thesis by simp
qed

lemma group_once:
  assumes "med \<in> set (medications s)" "distinct (medications s)" "distinct (med_times med)"
    "(k, g) \<in> set (groupMedicationsByTime s)" "med \<in> set g"
  shows "k \<in> set (med_times med) \<and> count_list g med = 1"
proof -
  have g: "g = groupAt (groupMedicationsByTime s) k"
    using assms(4) by (rule entry_groupAt)
  with assms(5) have k: "k \<in> set (med_times med)"
    by (simp add: in_groupAt_iff)
  have "count_list g med = count_list (medications s) med * count_list (med_times med) k"
    unfolding g groupAt_groupMedicationsByTime by (rule count_slots)
  with k assms(1,2,3) show ?thesis
    by (simp add: count_list_distinct)
qed

lemma render_blocks:
  assumes "med \<in> set (medications s)" "med_times med \<noteq> []"
  shows "\<exists>blocks. renderTodaysSchedule clk s = TimeBlocks blocks \<and>
     map blockTime blocks = sort (map fst (groupMedicationsByTime s)) \<and>
     (\<forall>b \<in> set blocks. map fst (blockItems b) = groupAt (groupMedicationsByTime s) (blockTime b))"
proof -
  let ?tg = "groupMedicationsByTime s"
  from assms obtain t where "t \<in> set (med_times med)"
    by (cases "med_times med") auto
  with assms(1) have "t \<in> set (map fst ?tg)"
    unfolding keys_groupMedicationsByTime by blast
  then have ne: "?tg \<noteq> []" by auto
  have ms: "medications s \<noteq> []" using assms(1) by auto
  let ?blocks = "map (\<lambda>(time, meds).
                  \<lparr>blockTime = time,
                   resolveAllButton = (length meds > 1),
                   blockItems =
                     map (\<lambda>med. (med, isMedicationTakenToday clk (med_id med) time s)) meds\<rparr>)
               (sort_key fst ?tg)"
  have 1: "renderTodaysSchedule clk s = TimeBlocks ?blocks"
    using ne ms by (simp add: renderTodaysSchedule_def Let_def)
  have "map blockTime ?blocks = map fst (sort_key fst ?tg)"
    by (simp add: case_prod_beta comp_def)
  also have "\<dots> = sort (map fst ?tg)"
    by (rule map_sort_key)
  finally have 2: "map blockTime ?blocks = sort (map fst ?tg)" .
  have 3: "\<forall>b \<in> set ?blocks. map fst (blockItems b) = groupAt ?tg (blockTime b)"
    by (auto simp add: comp_def dest: entry_groupAt)
  from 1 2 3 show ?thesis by blast
qed

lemma sorted_minutesOfDay:
  assumes "sorted ks" "\<forall>k \<in> set ks. wellFormedTime k"
  shows "sorted (map minutesOfDay ks)"
proof -
  have "sorted_wrt (\<lambda>a b. minutesOfDay a \<le> minutesOfDay b) ks"
    using assms(1)
  proof (rule sorted_wrt_mono_rel [rotated])
    fix a b assume "a \<in> set ks" "b \<in> set ks" "a \<le> b"
    with assms(2) show "minutesOfDay a \<le> minutesOfDay b"
      by (simp add: wellFormed_le_iff)
  qed
  then show ?thesis by (simp add: sorted_wrt_map)
qed

text \<open>
  C7. Let all times of the store be well formed (zero-padded \<^verbatim>\<open>HH:MM\<close>), and take a
  medication of the store with pairwise distinct times, in a store whose medications are
  pairwise distinct. The number of time groups that contain it is the number of its
  times; every group that contains it has one of its times as key and contains it once.
  When it has a time at all, the schedule is rendered as time blocks, one for each key
  of the mapping, each block lists the group of its time, and the blocks stand in
  ascending lexicographic order of their keys, which is the ascending order of the times
  of day.
\<close>

theorem dueToday_groups:
  assumes "timesWellFormed s"
    and "med \<in> set (medications s)" "distinct (medications s)" "distinct (med_times med)"
  shows
   "length (filter (\<lambda>(k, g). med \<in> set g) (groupMedicationsByTime s)) = length (med_times med) \<and>
    (\<forall>(k, g) \<in> set (groupMedicationsByTime s).
        med \<in> set g \<longrightarrow> k \<in> set (med_times med) \<and> count_list g med = 1) \<and>
    (med_times med \<noteq> [] \<longrightarrow>
      (\<exists>blocks. renderTodaysSchedule clk s = TimeBlocks blocks \<and>
         mset (map blockTime blocks) = mset (map fst (groupMedicationsByTime s)) \<and>
         (\<forall>b \<in> set blocks.
            map fst (blockItems b) = groupAt (groupMedicationsByTime s) (blockTime b)) \<and>
         sorted (map blockTime blocks) \<and>
         sorted (map minutesOfDay (map blockTime blocks))))"
proof (intro conjI impI)
  show "length (filter (\<lambda>(k, g). med \<in> set g) (groupMedicationsByTime s)) = length (med_times med)"
    using assms(2,4) by (rule groups_containing)
  show "\<forall>(k, g) \<in> set (groupMedicationsByTime s).
        med \<in> set g \<longrightarrow> k \<in> set (med_times med) \<and> count_list g med = 1"
    using group_once [OF assms(2-4)] by blast
next
  assume "med_times med \<noteq> []"
  with assms(2) obtain blocks where b: "renderTodaysSchedule clk s = TimeBlocks blocks"
    "map blockTime blocks = sort (map fst (groupMedicationsByTime s))"
    "\<forall>b \<in> set blocks. map fst (blockItems b) = groupAt (groupMedicationsByTime s) (blockTime b)"
    using render_blocks by blast
  have perm: "mset (map blockTime blocks) = mset (map fst (groupMedicationsByTime s))"
    unfolding b(2) by simp
  have srt: "sorted (map blockTime blocks)"
    unfolding b(2) by (rule sorted_sort)
  have wf: "\<forall>m \<in> set (medications s). \<forall>t \<in> set (med_times m). wellFormedTime t"
    using assms(1) by (simp add: timesWellFormed_def list_all_iff)
  have "sorted (map minutesOfDay (map blockTime blocks))"
  proof (rule sorted_minutesOfDay [OF srt])
    have "set (map blockTime blocks) = (\<Union>m \<in> set (medications s). set (med_times m))"
      unfolding b(2) using keys_groupMedicationsByTime [of s] by simp
    with wf show "\<forall>k \<in> set (map blockTime blocks). wellFormedTime k"
      by blast
  qed
  with b(1,3) perm srt show "\<exists>blocks. renderTodaysSchedule clk s = TimeBlocks blocks \<and>
         mset (map blockTime blocks) = mset (map fst (groupMedicationsByTime s)) \<and>
         (\<forall>b \<in> set blocks.
            map fst (blockItems b) = groupAt (groupMedicationsByTime s) (blockTime b)) \<and>
         sorted (map blockTime blocks) \<and>
         sorted (map minutesOfDay (map blockTime blocks))"
    by blast
qed

text \<open>
  With Aspirin (08:00, 20:00) and Vitamin D (07:30) in the store, Aspirin is in two
  groups, and the blocks are shown as 07:30, 08:00, 20:00 although 07:30 was inserted
  last.
\<close>

theorem dueToday_groups_witness:
  "timesWellFormed (initialApp\<lparr>medications := [aspirin, vitaminD]\<rparr>) \<and>
   length (filter (\<lambda>(k, g). aspirin \<in> set g)
      (groupMedicationsByTime (initialApp\<lparr>medications := [aspirin, vitaminD]\<rparr>))) = 2 \<and>
   groupMedicationsByTime (initialApp\<lparr>medications := [aspirin, vitaminD]\<rparr>) =
     [(''08:00'', [aspirin]), (''20:00'', [aspirin]), (''07:30'', [vitaminD])] \<and>
   (\<exists>blocks. renderTodaysSchedule nineOClock (initialApp\<lparr>medications := [aspirin, vitaminD]\<rparr>) =
        TimeBlocks blocks \<and>
      sorted (map blockTime blocks) \<and>
      map blockTime blocks = [''07:30'', ''08:00'', ''20:00''] \<and>
      map minutesOfDay (map blockTime blocks) = [450, 480, 1200])"
proof -
  let ?s = "initialApp\<lparr>medications := [aspirin, vitaminD]\<rparr>"
  have h1: "aspirin \<in> set (medications ?s)" by simp
  have h2: "distinct (medications ?s)" by (simp add: aspirin_def vitaminD_def)
  have h3: "distinct (med_times aspirin)" by (simp add: aspirin_def)
  have h4: "med_times aspirin \<noteq> []" by (simp add: aspirin_def)
  have wf: "timesWellFormed ?s"
    by (simp add: timesWellFormed_def aspirin_def vitaminD_def wellFormedTime_def isDigit_def
        digitValue_def)
  have g: "groupMedicationsByTime ?s =
     [(''08:00'', [aspirin]), (''20:00'', [aspirin]), (''07:30'', [vitaminD])]"
    by (simp add: groupMedicationsByTime_def pushMedication_def groupAt_def aspirin_def
        vitaminD_def)
  have mins: "minutesOfDay ''07:30'' = 450" "minutesOfDay ''08:00'' = 480"
    "minutesOfDay ''20:00'' = 1200"
    by (simp_all add: minutesOfDay_def digitValue_def)
  from dueToday_groups [OF wf h1 h2 h3, of nineOClock] h4
  have n: "length (filter (\<lambda>(k, g). aspirin \<in> set g) (groupMedicationsByTime ?s)) =
          length (med_times aspirin)"
    and "\<exists>blocks. renderTodaysSchedule nineOClock ?s = TimeBlocks blocks \<and>
          mset (map blockTime blocks) = mset (map fst (groupMedicationsByTime ?s)) \<and>
          sorted (map blockTime blocks)"
    by blast+
  then obtain blocks where b: "renderTodaysSchedule nineOClock ?s = TimeBlocks blocks"
    "mset (map blockTime blocks) = mset (map fst (groupMedicationsByTime ?s))"
    "sorted (map blockTime blocks)"
    by blast
  have "map blockTime blocks = sort (map fst (groupMedicationsByTime ?s))"
    using properties_for_sort [OF b(2) b(3)] by simp
  then have bt: "map blockTime blocks = [''07:30'', ''08:00'', ''20:00'']"
    unfolding g by simp
  have mm: "map minutesOfDay (map blockTime blocks) = [450, 480, 1200]"
    unfolding bt by (simp add: mins)
  have n2: "length (filter (\<lambda>(k, g). aspirin \<in> set g) (groupMedicationsByTime ?s)) = 2"
    using n by (simp add: aspirin_def)
  show ?thesis
  proof (intro conjI)
    show "timesWellFormed ?s"
      by (rule wf)
    show "length (filter (\<lambda>(k, g). aspirin \<in> set g) (groupMedicationsByTime ?s)) = 2"
      by (rule n2)
    show "groupMedicationsByTime ?s =
       [(''08:00'', [aspirin]), (''20:00'', [aspirin]), (''07:30'', [vitaminD])]"
      by (rule g)
    show "\<exists>blocks. renderTodaysSchedule nineOClock ?s = TimeBlocks blocks \<and>
        sorted (map blockTime blocks) \<and>
        map blockTime blocks = [''07:30'', ''08:00'', ''20:00''] \<and>
        map minutesOfDay (map blockTime blocks) = [450, 480, 1200]"
    proof (intro exI conjI)
      show "renderTodaysSchedule nineOClock ?s = TimeBlocks blocks" by (rule b(1))
      show "sorted (map blockTime blocks)" by (rule b(3))
      show "map blockTime blocks = [''07:30'', ''08:00'', ''20:00'']" by (rule bt)
      show "map minutesOfDay (map blockTime blocks) = [450, 480, 1200]" by (rule mm)
    qed
  qed
qed

section \<open>Resolving a whole time group\<close>

lemma taken_mono:
  "isMedicationTakenToday clk i t s \<Longrightarrow> set (history s) \<subseteq> set (history s') \<Longrightarrow>
   isMedicationTakenToday clk i t s'"
  by (auto simp add: isMedicationTakenToday_def list_ex_iff)

lemma markMedicationTaken_stored:
  assumes "med \<in> set (medications s)"
  shows "\<exists>e. history (markMedicationTaken clk (med_id med) t s) = history s @ [e] \<and>
     medicationId e = med_id med \<and> action e = ''taken'' \<and> scheduledTime e = t \<and>
     date e = dateString clk"
proof -
  from assms have "find (\<lambda>m. med_id m = med_id med) (medications s) \<noteq> None"
    by (auto simp add: find_None_iff)
  then obtain m where "find (\<lambda>m. med_id m = med_id med) (medications s) = Some m"
    by blast
  then show ?thesis
    by (simp add: markMedicationTaken_def recordMedicationAction_def history_saveData)
qed

lemma medications_markMedicationTaken:
  "medications (markMedicationTaken clk i t s) = medications s"
  by (simp add: markMedicationTaken_def recordMedicationAction_def medications_saveData
      split: option.splits)

lemma resolve_loop:
  assumes "set meds \<subseteq> set (medications s)"
  shows "medications (fold (\<lambda>med s'. if \<not> isMedicationTakenToday clk (med_id med) t s'
                         then markMedicationTaken clk (med_id med) t s'
                         else s') meds s) = medications s \<and>
    (\<forall>med \<in> set meds. isMedicationTakenToday clk (med_id med) t
        (fold (\<lambda>med s'. if \<not> isMedicationTakenToday clk (med_id med) t s'
                         then markMedicationTaken clk (med_id med) t s'
                         else s') meds s)) \<and>
    (\<exists>new. history (fold (\<lambda>med s'. if \<not> isMedicationTakenToday clk (med_id med) t s'
                         then markMedicationTaken clk (med_id med) t s'
                         else s') meds s) = history s @ new \<and>
       (\<forall>e \<in> set new. \<not> isMedicationTakenToday clk (medicationId e) t s \<and>
           action e = ''taken'' \<and> scheduledTime e = t \<and> date e = dateString clk))"
  using assms
proof (induction meds arbitrary: s)
  case Nil
  then show ?case by simp
next
  case (Cons med meds)
  let ?f = "\<lambda>med s'. if \<not> isMedicationTakenToday clk (med_id med) t s'
                         then markMedicationTaken clk (med_id med) t s'
                         else s'"
  let ?s1 = "?f med s"
  have med: "med \<in> set (medications s)" using Cons.prems by simp
  have m1: "medications ?s1 = medications s"
    by (simp add: medications_markMedicationTaken)
  have step: "\<exists>new1. history ?s1 = history s @ new1 \<and>
       (\<forall>e \<in> set new1. \<not> isMedicationTakenToday clk (medicationId e) t s \<and>
           action e = ''taken'' \<and> scheduledTime e = t \<and> date e = dateString clk)"
  proof (cases "isMedicationTakenToday clk (med_id med) t s")
    case True
    then show ?thesis by simp
  next
    case False
    from markMedicationTaken_stored [OF med, of clk t] obtain e where
      "history (markMedicationTaken clk (med_id med) t s) = history s @ [e]"
      "medicationId e = med_id med" "action e = ''taken''" "scheduledTime e = t"
      "date e = dateString clk"
      by blast
    with False show ?thesis by simp
  qed
  then obtain new1 where new1: "history ?s1 = history s @ new1"
    "\<forall>e \<in> set new1. \<not> isMedicationTakenToday clk (medicationId e) t s \<and>
           action e = ''taken'' \<and> scheduledTime e = t \<and> date e = dateString clk"
    by blast
  have t1: "isMedicationTakenToday clk (med_id med) t ?s1"
  proof (cases "isMedicationTakenToday clk (med_id med) t s")
    case True
    then show ?thesis by simp
  next
    case False
    from markMedicationTaken_stored [OF med, of clk t] obtain e where
      "history (markMedicationTaken clk (med_id med) t s) = history s @ [e]"
      "medicationId e = med_id med" "action e = ''taken''" "scheduledTime e = t"
      "date e = dateString clk"
      by blast
    with False show ?thesis
      by (auto simp add: isMedicationTakenToday_def list_ex_iff)
  qed
  have sub: "set meds \<subseteq> set (medications ?s1)"
    using Cons.prems m1 by auto
  from Cons.IH [OF sub] obtain new where ih:
    "medications (fold ?f meds ?s1) = medications ?s1"
    "\<forall>m \<in> set meds. isMedicationTakenToday clk (med_id m) t (fold ?f meds ?s1)"
    "history (fold ?f meds ?s1) = history ?s1 @ new"
    "\<forall>e \<in> set new. \<not> isMedicationTakenToday clk (medicationId e) t ?s1 \<and>
           action e = ''taken'' \<and> scheduledTime e = t \<and> date e = dateString clk"
    by blast
  have mono: "\<not> isMedicationTakenToday clk i t s" if "\<not> isMedicationTakenToday clk i t ?s1" for i
    using that taken_mono [of clk i t s ?s1] new1(1) by auto
  have a: "medications (fold ?f (med # meds) s) = medications s"
    using ih(1) m1 by simp
  have b: "\<forall>m \<in> set (med # meds). isMedicationTakenToday clk (med_id m) t (fold ?f (med # meds) s)"
    using ih(2) taken_mono [OF t1, of "fold ?f meds ?s1"] ih(3) by auto
  have c: "history (fold ?f (med # meds) s) = history s @ (new1 @ new)"
    using ih(3) new1(1) by simp
  have d: "\<forall>e \<in> set (new1 @ new). \<not> isMedicationTakenToday clk (medicationId e) t s \<and>
           action e = ''taken'' \<and> scheduledTime e = t \<and> date e = dateString clk"
  proof
    fix e assume "e \<in> set (new1 @ new)"
    then consider "e \<in> set new1" | "e \<in> set new" by auto
    then show "\<not> isMedicationTakenToday clk (medicationId e) t s \<and>
           action e = ''taken'' \<and> scheduledTime e = t \<and> date e = dateString clk"
    proof cases
      case 1
      with new1(2) show ?thesis by blast
    next
      case 2
      with ih(4) have "\<not> isMedicationTakenToday clk (medicationId e) t ?s1 \<and>
           action e = ''taken'' \<and> scheduledTime e = t \<and> date e = dateString clk"
        by blast
      with mono [of "medicationId e"] show ?thesis by blast
    qed
  qed
  show ?case
  proof (intro conjI)
    show "medications (fold ?f (med # meds) s) = medications s" by (rule a)
    show "\<forall>m \<in> set (med # meds). isMedicationTakenToday clk (med_id m) t (fold ?f (med # meds) s)"
      by (rule b)
    show "\<exists>new. history (fold ?f (med # meds) s) = history s @ new \<and>
       (\<forall>e \<in> set new. \<not> isMedicationTakenToday clk (medicationId e) t s \<and>
           action e = ''taken'' \<and> scheduledTime e = t \<and> date e = dateString clk)"
      using c d by blast
  qed
qed

text \<open>
  C9. After \<^verbatim>\<open>resolveAllForTime\<close> every medication in the group of the time is taken
  today, the mapping is what it was, and the log has grown by entries at its end only:
  each new entry is a \<^verbatim>\<open>'taken'\<close> entry for this time and today, of a medication id that
  was not taken before the call. So the entries of an id that was already taken are the
  same before and after.
\<close>

theorem resolveAllForTime_marks_all:
  "(\<forall>med \<in> set (groupAt (groupMedicationsByTime s) t).
       isMedicationTakenToday clk (med_id med) t (resolveAllForTime clk t s)) \<and>
   groupMedicationsByTime (resolveAllForTime clk t s) = groupMedicationsByTime s \<and>
   (\<exists>new. history (resolveAllForTime clk t s) = history s @ new \<and>
      (\<forall>e \<in> set new. \<not> isMedicationTakenToday clk (medicationId e) t s \<and>
          action e = ''taken'' \<and> scheduledTime e = t \<and> date e = dateString clk)) \<and>
   (\<forall>i. isMedicationTakenToday clk i t s \<longrightarrow>
      filter (\<lambda>e. medicationId e = i) (history (resolveAllForTime clk t s)) =
      filter (\<lambda>e. medicationId e = i) (history s))"
proof -
  let ?meds = "groupAt (groupMedicationsByTime s) t"
  have sub: "set ?meds \<subseteq> set (medications s)"
    by (auto simp add: in_groupAt_iff)
  from resolve_loop [OF sub, of clk t] obtain new where r:
    "medications (resolveAllForTime clk t s) = medications s"
    "\<forall>med \<in> set ?meds. isMedicationTakenToday clk (med_id med) t (resolveAllForTime clk t s)"
    "history (resolveAllForTime clk t s) = history s @ new"
    "\<forall>e \<in> set new. \<not> isMedicationTakenToday clk (medicationId e) t s \<and>
          action e = ''taken'' \<and> scheduledTime e = t \<and> date e = dateString clk"
    unfolding resolveAllForTime_def Let_def by blast
  have g: "groupMedicationsByTime (resolveAllForTime clk t s) = groupMedicationsByTime s"
    using r(1) by (simp add: groupMedicationsByTime_def)
  have f: "filter (\<lambda>e. medicationId e = i) (history (resolveAllForTime clk t s)) =
      filter (\<lambda>e. medicationId e = i) (history s)"
    if "isMedicationTakenToday clk i t s" for i
  proof -
    have "filter (\<lambda>e. medicationId e = i) new = []"
      using r(4) that by (auto simp add: filter_empty_conv)
    then show ?thesis by (simp add: r(3))
  qed
  from r(2) g r(3) r(4) f show ?thesis by blast
qed

text \<open>
  Aspirin is already taken at 08:00 and Vitamin D, moved to 08:00, is not: one entry is
  appended, for Vitamin D.
\<close>

theorem resolveAllForTime_marks_all_witness:
  "history (resolveAllForTime nineOClock ''08:00''
      (initialApp\<lparr>medications := [aspirin, vitaminD\<lparr>med_times := [''08:00'']\<rparr>],
                  history := [logEntry ''taken'' ''08:00'' ''Tue Nov 03 2026'']\<rparr>)) =
     [logEntry ''taken'' ''08:00'' ''Tue Nov 03 2026'',
      \<lparr>entry_id = ''1793696400000'', medicationId = ''1793690500000'',
       medicationName = ''Vitamin D'', action = ''taken'', scheduledTime = ''08:00'',
       actualTime = ''2026-11-03T09:00:00.000Z'', date = ''Tue Nov 03 2026''\<rparr>] \<and>
   isMedicationTakenToday nineOClock ''1793690000000'' ''08:00''
     (resolveAllForTime nineOClock ''08:00''
      (initialApp\<lparr>medications := [aspirin, vitaminD\<lparr>med_times := [''08:00'']\<rparr>],
                  history := [logEntry ''taken'' ''08:00'' ''Tue Nov 03 2026'']\<rparr>)) \<and>
   isMedicationTakenToday nineOClock ''1793690500000'' ''08:00''
     (resolveAllForTime nineOClock ''08:00''
      (initialApp\<lparr>medications := [aspirin, vitaminD\<lparr>med_times := [''08:00'']\<rparr>],
                  history := [logEntry ''taken'' ''08:00'' ''Tue Nov 03 2026'']\<rparr>))"
proof -
  let ?s = "initialApp\<lparr>medications := [aspirin, vitaminD\<lparr>med_times := [''08:00'']\<rparr>],
                  history := [logEntry ''taken'' ''08:00'' ''Tue Nov 03 2026'']\<rparr>"
  have g: "groupAt (groupMedicationsByTime ?s) ''08:00'' =
      [aspirin, vitaminD\<lparr>med_times := [''08:00'']\<rparr>]"
    by (simp add: groupAt_groupMedicationsByTime aspirin_def vitaminD_def)
  have h: "history (resolveAllForTime nineOClock ''08:00'' ?s) =
     [logEntry ''taken'' ''08:00'' ''Tue Nov 03 2026'',
      \<lparr>entry_id = ''1793696400000'', medicationId = ''1793690500000'',
       medicationName = ''Vitamin D'', action = ''taken'', scheduledTime = ''08:00'',
       actualTime = ''2026-11-03T09:00:00.000Z'', date = ''Tue Nov 03 2026''\<rparr>]"
    unfolding resolveAllForTime_def Let_def g
    by (simp add: isMedicationTakenToday_def markMedicationTaken_def
        recordMedicationAction_def history_saveData aspirin_def vitaminD_def logEntry_def
        nineOClock_def)
  from resolveAllForTime_marks_all [of ?s "''08:00''" nineOClock]
  have "\<forall>med \<in> set (groupAt (groupMedicationsByTime ?s) ''08:00'').
       isMedicationTakenToday nineOClock (med_id med) ''08:00''
         (resolveAllForTime nineOClock ''08:00'' ?s)"
    by blast
  then have "isMedicationTakenToday nineOClock (med_id aspirin) ''08:00''
         (resolveAllForTime nineOClock ''08:00'' ?s) \<and>
       isMedicationTakenToday nineOClock (med_id (vitaminD\<lparr>med_times := [''08:00'']\<rparr>)) ''08:00''
         (resolveAllForTime nineOClock ''08:00'' ?s)"
    unfolding g by simp
  then show ?thesis
    using h by (simp add: aspirin_def vitaminD_def)
qed

section \<open>Arming again\<close>

lemma timers_scheduleNotificationForTime:
  "timers (scheduleNotificationForTime clk med t s) =
     timers s @ [\<lparr>due = (case armTarget clk t of None \<Rightarrow> epochMillis clk | Some x \<Rightarrow> x),
                  timerMedication = med, timerTime = t\<rparr>]"
  by (simp add: scheduleNotificationForTime_def Let_def split: option.splits)

lemma permission_scheduleNotificationForTime:
  "notificationPermission (scheduleNotificationForTime clk med t s) = notificationPermission s"
  by (simp add: scheduleNotificationForTime_def Let_def)

lemma timers_fold_times:
  "timers (fold (\<lambda>time s'. scheduleNotificationForTime clk med time s') ts s) =
     timers s @ map (\<lambda>t. \<lparr>due = (case armTarget clk t of None \<Rightarrow> epochMillis clk | Some x \<Rightarrow> x),
                           timerMedication = med, timerTime = t\<rparr>) ts"
  by (induction ts arbitrary: s) (simp_all add: timers_scheduleNotificationForTime)

lemma permission_fold_times:
  "notificationPermission (fold (\<lambda>time s'. scheduleNotificationForTime clk med time s') ts s) =
     notificationPermission s"
  by (induction ts arbitrary: s) (simp_all add: permission_scheduleNotificationForTime)

lemma timers_scheduleNotifications:
  "notificationPermission s \<Longrightarrow>
   timers (scheduleNotifications clk med s) =
     timers s @ map (\<lambda>t. \<lparr>due = (case armTarget clk t of None \<Rightarrow> epochMillis clk | Some x \<Rightarrow> x),
                           timerMedication = med, timerTime = t\<rparr>) (med_times med)"
  by (simp add: scheduleNotifications_def timers_fold_times)

lemma permission_scheduleNotifications:
  "notificationPermission (scheduleNotifications clk med s) = notificationPermission s"
  by (simp add: scheduleNotifications_def permission_fold_times)

lemma timers_fold_meds:
  "notificationPermission s \<Longrightarrow>
   timers (fold (\<lambda>med s'. scheduleNotifications clk med s') meds s) =
     timers s @ concat (map (\<lambda>med. map (\<lambda>t.
        \<lparr>due = (case armTarget clk t of None \<Rightarrow> epochMillis clk | Some x \<Rightarrow> x),
         timerMedication = med, timerTime = t\<rparr>) (med_times med)) meds)"
  by (induction meds arbitrary: s)
    (simp_all add: timers_scheduleNotifications permission_scheduleNotifications)

lemma armTarget_examples:
  "armTarget nineOClock ''08:00'' = Some 1793779200000"
  "armTarget nineOClock ''20:00'' = Some 1793736000000"
  "armTarget eightPM ''20:00'' = Some 1793822400000"
  by (simp_all add: time_examples armTarget_def setHours_def setDateNextDay_def utcOf_def
      localTime_def offsetAt_def msPerDay_def nineOClock_def eightPM_def utcZone_def)


lemma clock_fields:
  "epochMillis nineOClock = 1793696400000" "epochMillis eightPM = 1793736000000"
  by (simp_all add: nineOClock_def eightPM_def)

lemma aspirin_fields:
  "med_id aspirin = ''1793690000000''" "name aspirin = ''Aspirin''" "dosage aspirin = ''81mg''"
  "med_times aspirin = [''08:00'', ''20:00'']"
  by (simp_all add: aspirin_def)

lemma resumed_once:
  "visibilitychange nineOClock False granted =
     granted\<lparr>timers :=
       [\<lparr>due = 1793779200000, timerMedication = aspirin, timerTime = ''08:00''\<rparr>,
        \<lparr>due = 1793736000000, timerMedication = aspirin, timerTime = ''20:00''\<rparr>]\<rparr>"
  by (simp add: visibilitychange_def scheduleNotifications_def scheduleNotificationForTime_def
      granted_def initialApp_def aspirin_fields armTarget_examples clock_fields Let_def)

lemma resumed_twice:
  "visibilitychange nineOClock False (visibilitychange nineOClock False granted) =
     granted\<lparr>timers :=
       [\<lparr>due = 1793779200000, timerMedication = aspirin, timerTime = ''08:00''\<rparr>,
        \<lparr>due = 1793736000000, timerMedication = aspirin, timerTime = ''20:00''\<rparr>,
        \<lparr>due = 1793779200000, timerMedication = aspirin, timerTime = ''08:00''\<rparr>,
        \<lparr>due = 1793736000000, timerMedication = aspirin, timerTime = ''20:00''\<rparr>]\<rparr>"
  unfolding resumed_once
  by (simp add: visibilitychange_def scheduleNotifications_def scheduleNotificationForTime_def
      granted_def initialApp_def aspirin_fields armTarget_examples clock_fields Let_def)

text \<open>
  C4 as stated fails. Permission is granted and the store holds Aspirin. After two
  resumes at 09:00 two timers are pending for the pair (Aspirin, 20:00), both due at
  20:00 of that day; when both have run, at 20:00, two reminders with the tag of the
  pair have been shown on the same calendar day.
\<close>

theorem rearm_counterexample:
  "length (filter (\<lambda>tm. timerMedication tm = aspirin \<and> timerTime tm = ''20:00'')
      (timers (visibilitychange nineOClock False (visibilitychange nineOClock False granted)))) = 2 \<and>
   map_option (\<lambda>s. map tag (notifications s))
      (Option.bind
         (fireTimer eightPM 1
            (visibilitychange nineOClock False (visibilitychange nineOClock False granted)))
         (fireTimer eightPM 2)) =
     Some [''medication-1793690000000-20:00'', ''medication-1793690000000-20:00'']"
  unfolding resumed_twice
  by (simp add: fireTimer_def showMedicationNotification_def scheduleNotificationForTime_def
      granted_def initialApp_def aspirin_fields armTarget_examples clock_fields Let_def)

text \<open>
  C4, amended. The arm step cancels nothing: it leaves every pending timer in place and
  adds one for the pair, so the number of pending timers of the pair grows by one. A
  resume with the page visible and permission granted adds one timer for every
  (medication, time) pair of the store behind the timers that were pending.
\<close>

theorem rearm_adds_timers:
  "timers (scheduleNotificationForTime clk med t s) =
     timers s @ [\<lparr>due = (case armTarget clk t of None \<Rightarrow> epochMillis clk | Some x \<Rightarrow> x),
                  timerMedication = med, timerTime = t\<rparr>] \<and>
   length (filter (\<lambda>tm. timerMedication tm = med \<and> timerTime tm = t)
             (timers (scheduleNotificationForTime clk med t s))) =
     Suc (length (filter (\<lambda>tm. timerMedication tm = med \<and> timerTime tm = t) (timers s))) \<and>
   (\<not> hidden \<and> notificationPermission s \<longrightarrow>
      timers (visibilitychange clk hidden s) =
        timers s @ concat (map (\<lambda>med. map (\<lambda>t.
          \<lparr>due = (case armTarget clk t of None \<Rightarrow> epochMillis clk | Some x \<Rightarrow> x),
           timerMedication = med, timerTime = t\<rparr>) (med_times med)) (medications s)))"
  by (simp add: timers_scheduleNotificationForTime visibilitychange_def timers_fold_meds)

theorem rearm_adds_timers_witness:
  "timers (visibilitychange nineOClock False (granted\<lparr>timers :=
       [\<lparr>due = 1793779200000, timerMedication = aspirin, timerTime = ''08:00''\<rparr>,
        \<lparr>due = 1793736000000, timerMedication = aspirin, timerTime = ''20:00''\<rparr>]\<rparr>)) =
     [\<lparr>due = 1793779200000, timerMedication = aspirin, timerTime = ''08:00''\<rparr>,
      \<lparr>due = 1793736000000, timerMedication = aspirin, timerTime = ''20:00''\<rparr>,
      \<lparr>due = 1793779200000, timerMedication = aspirin, timerTime = ''08:00''\<rparr>,
      \<lparr>due = 1793736000000, timerMedication = aspirin, timerTime = ''20:00''\<rparr>]"
  using rearm_adds_timers [of nineOClock aspirin "''08:00''" "granted\<lparr>timers :=
       [\<lparr>due = 1793779200000, timerMedication = aspirin, timerTime = ''08:00''\<rparr>,
        \<lparr>due = 1793736000000, timerMedication = aspirin, timerTime = ''20:00''\<rparr>]\<rparr>" False]
  by (simp add: granted_def aspirin_fields armTarget_examples)

section \<open>Timers of a deleted medication\<close>

text \<open>
  C5 as stated fails. Aspirin is armed, then deleted with confirmation, so the store is
  empty. Its 20:00 timer then runs: the reminder for Aspirin is shown, and the pair is
  armed again for 20:00 of the next day.
\<close>

theorem deleted_medication_counterexample:
  "medications (confirmYes nineOClock (deleteMedication ''1793690000000''
      (visibilitychange nineOClock False granted))) = [] \<and>
   map_option notifications
     (fireTimer eightPM 1 (confirmYes nineOClock (deleteMedication ''1793690000000''
        (visibilitychange nineOClock False granted)))) =
     Some [\<lparr>title = ''Time for Aspirin'', body = ''Take your 81mg Aspirin now'',
            tag = ''medication-1793690000000-20:00'', withSound = True,
            withVibration = True\<rparr>] \<and>
   map_option timers
     (fireTimer eightPM 1 (confirmYes nineOClock (deleteMedication ''1793690000000''
        (visibilitychange nineOClock False granted)))) =
     Some [\<lparr>due = 1793779200000, timerMedication = aspirin, timerTime = ''08:00''\<rparr>,
           \<lparr>due = 1793822400000, timerMedication = aspirin, timerTime = ''20:00''\<rparr>]"
  unfolding resumed_once
  by (simp add: fireTimer_def showMedicationNotification_def scheduleNotificationForTime_def
      confirmYes_def deleteMedication_def showConfirmDialog_def saveData_def
      granted_def initialApp_def aspirin_fields armTarget_examples clock_fields Let_def)

text \<open>
  C5, amended. Deleting a medication leaves the pending timers and the permission flag
  as they were. A timer that runs does not look at the store: it shows the reminder for
  the medication object it was armed with exactly when the notification permission is
  granted, and in either case it arms the same pair again; the store is not changed.
\<close>

theorem fireTimer_ignores_store:
  "timers (confirmYes clk (deleteMedication medId s)) = timers s \<and>
   notificationPermission (confirmYes clk (deleteMedication medId s)) = notificationPermission s \<and>
   (i < length (timers s) \<longrightarrow>
      (\<exists>s'. fireTimer clk' i s = Some s' \<and>
         medications s' = medications s \<and>
         notifications s' = notifications s @
           (if notificationPermission s
            then [\<lparr>title = ''Time for '' @ name (timerMedication (timers s ! i)),
                   body = ''Take your '' @ dosage (timerMedication (timers s ! i)) @ '' '' @
                          name (timerMedication (timers s ! i)) @ '' now'',
                   tag = ''medication-'' @ med_id (timerMedication (timers s ! i)) @ ''-'' @
                         timerTime (timers s ! i),
                   withSound = soundEnabled (settings s),
                   withVibration = (vibrationEnabled (settings s) \<and> vibrateSupported s)\<rparr>]
            else []) \<and>
         timers s' = take i (timers s) @ drop (Suc i) (timers s) @
           [\<lparr>due = (case armTarget clk' (timerTime (timers s ! i)) of
                      None \<Rightarrow> epochMillis clk' | Some x \<Rightarrow> x),
             timerMedication = timerMedication (timers s ! i),
             timerTime = timerTime (timers s ! i)\<rparr>]))"
  by (simp add: confirmYes_def deleteMedication_def showConfirmDialog_def timers_saveData
      notificationPermission_saveData fireTimer_def showMedicationNotification_def
      scheduleNotificationForTime_def Let_def split: option.splits)

theorem fireTimer_ignores_store_witness:
  "map_option notifications
     (fireTimer eightPM 1 (granted\<lparr>medications := [], timers :=
       [\<lparr>due = 1793779200000, timerMedication = aspirin, timerTime = ''08:00''\<rparr>,
        \<lparr>due = 1793736000000, timerMedication = aspirin, timerTime = ''20:00''\<rparr>]\<rparr>)) =
     Some [\<lparr>title = ''Time for Aspirin'', body = ''Take your 81mg Aspirin now'',
            tag = ''medication-1793690000000-20:00'', withSound = True,
            withVibration = True\<rparr>]"
  using fireTimer_ignores_store [of nineOClock "''1793690000000''"
     "granted\<lparr>medications := [], timers :=
       [\<lparr>due = 1793779200000, timerMedication = aspirin, timerTime = ''08:00''\<rparr>,
        \<lparr>due = 1793736000000, timerMedication = aspirin, timerTime = ''20:00''\<rparr>]\<rparr>" 1 eightPM]
  by (auto simp add: granted_def initialApp_def aspirin_fields)

end
